theory Spec2Isabelle
  imports Complex_Main
begin

section \<open>Data model\<close>

text \<open>
  The ticket status lifecycle of the shared types
  (\<^verbatim>\<open>type TicketStatus = 'REGISTERED' | 'WAITLISTED' | 'CHECKED_IN' | 'CANCELLED'\<close>).
\<close>

datatype TicketStatus = REGISTERED | WAITLISTED | CHECKED_IN | CANCELLED

text \<open>The string a status has inside a template literal.\<close>

fun status_text :: "TicketStatus \<Rightarrow> string" where
  "status_text REGISTERED = ''REGISTERED''"
| "status_text WAITLISTED = ''WAITLISTED''"
| "status_text CHECKED_IN = ''CHECKED_IN''"
| "status_text CANCELLED = ''CANCELLED''"

text \<open>
  \<^verbatim>\<open>interface TicketPayload { sub; evt; iat; nonce }\<close> of the JWT service: the claims
  of a ticket credential. There is no expiry claim.
\<close>

record TicketPayload =
  sub :: string
  evt :: string
  iat :: nat
  nonce :: string

text \<open>
  The \<^verbatim>\<open>jsonwebtoken\<close> library is outside the repository; it is modelled symbolically.
  A key pair is named by a number, its private and its public half carry that number.
  A signature records the algorithm, the key pair whose private half produced it and
  the payload it was computed over. A presented token string is either a well-formed
  three-part JWT (header algorithm, payload, signature) or any other string
  (\<open>Raw\<close>, the empty string included).
\<close>

datatype Algorithm = RS256 | HS256

datatype Signature = Signature Algorithm nat TicketPayload

datatype Token = Raw string | Jwt Algorithm TicketPayload Signature

record JWTService =
  privateKey :: nat
  publicKey :: nat

text \<open>
  The rows of the relational store. The Prisma schema is not among the sources. A
  ticket has the nine columns of the shared \<^verbatim>\<open>Ticket\<close> interface. Of users and
  events the columns that the ticket routes read are kept.

  No handler writes \<^verbatim>\<open>createdAt\<close> or \<^verbatim>\<open>updatedAt\<close>, and the interface requires
  both: the storage layer fills them in when it creates a row. Whether it also
  rewrites \<^verbatim>\<open>updatedAt\<close> on every update (the attribute \<^verbatim>\<open>@updatedAt\<close> of the
  schema) is not visible in the sources and is a parameter of the model, see
  \<open>maintainsUpdatedAt\<close> below.
\<close>

record User =
  id_User :: string
  fullName :: string
  email :: string

record EventSummary =
  id_Event :: string
  title :: string
  dateTime :: nat

record Event = EventSummary +
  price :: rat
  capacity :: int
  isPrivate :: bool
  inviteToken :: "string option"

record Ticket =
  id_Ticket :: string
  jwtToken :: "Token option"
  status :: TicketStatus
  nonce :: "string option"
  checkInTime :: "nat option"
  userId :: string
  eventId :: string
  createdAt :: nat
  updatedAt :: nat

text \<open>A ticket row together with the relations an \<^verbatim>\<open>include\<close> selects.\<close>

record TicketWithDetails = Ticket +
  user :: User
  event :: EventSummary

record DB =
  users :: "User list"
  events :: "Event list"
  tickets :: "Ticket list"

text \<open>Errors the Prisma client throws; every handler catches them and answers 500.\<close>

datatype PrismaError = RecordNotFound | UniqueConstraintViolation
  | ForeignKeyViolation | InconsistentRelation

text \<open>
  What a handler takes from its surroundings: the JWT service singleton, the clock
  (\<^verbatim>\<open>Date.now()\<close> in milliseconds), the hex string of \<^verbatim>\<open>randomBytes(32)\<close>, the
  identifier the store gives a new row, and the locale's time formatting. Of the
  storage layer: the time it stamps on a row it writes, and whether the schema has it
  rewrite \<^verbatim>\<open>updatedAt\<close> on an update.
\<close>

record Runtime =
  jwtService :: JWTService
  dateNow :: nat
  randomHex :: string
  newId :: string
  toLocaleTimeString :: "nat \<Rightarrow> string"
  storeNow :: nat
  maintainsUpdatedAt :: bool

section \<open>The JWT service\<close>

definition generateNonce :: "Runtime \<Rightarrow> string" where
  "generateNonce rt = randomHex rt"

text \<open>\<^verbatim>\<open>jwt.sign(payload, key, { algorithm })\<close>.\<close>

definition jwt_sign :: "TicketPayload \<Rightarrow> nat \<Rightarrow> Algorithm \<Rightarrow> Token" where
  "jwt_sign payload key alg = Jwt alg payload (Signature alg key payload)"

text \<open>
  \<^verbatim>\<open>jwt.verify(token, key, { algorithms })\<close>: \<open>None\<close> where the library throws (a
  malformed token, an algorithm that is not allowed, a signature that was not made
  over this payload with this key pair). A ticket payload has no \<^verbatim>\<open>exp\<close> or
  \<^verbatim>\<open>nbf\<close> claim, so the clock is not consulted.
\<close>

fun jwt_verify :: "Token \<Rightarrow> nat \<Rightarrow> Algorithm list \<Rightarrow> TicketPayload option" where
  "jwt_verify (Raw s) key algs = None"
| "jwt_verify (Jwt alg payload sg) key algs =
     (if alg \<in> set algs \<and> sg = Signature alg key payload then Some payload else None)"

definition generateTicketToken :: "Runtime \<Rightarrow> string \<Rightarrow> string \<Rightarrow> Token \<times> string" where
  "generateTicketToken rt uid eid =
     (let n = generateNonce rt;
          payload = \<lparr>sub = uid, evt = eid, iat = dateNow rt div 1000, nonce = n\<rparr>;
          token = jwt_sign payload (privateKey (jwtService rt)) RS256
      in (token, n))"

definition verifyTicketToken :: "JWTService \<Rightarrow> Token \<Rightarrow> TicketPayload option" where
  "verifyTicketToken svc token = jwt_verify token (publicKey svc) [RS256]"

definition rotateNonce :: "Runtime \<Rightarrow> string" where
  "rotateNonce rt = generateNonce rt"

section \<open>The store, as the handlers reach it through the Prisma client\<close>

text \<open>
  An \<^verbatim>\<open>include\<close> of the ticket's user (id, fullName, email) and event (id, title,
  dateTime). Both relations are required ones; the client throws when a row they
  point to is missing.
\<close>

definition include_details :: "DB \<Rightarrow> Ticket \<Rightarrow> PrismaError + TicketWithDetails" where
  "include_details db t =
     (case find (\<lambda>u. id_User u = userId t) (users db) of
        None \<Rightarrow> Inl InconsistentRelation
      | Some u \<Rightarrow>
         (case find (\<lambda>e. id_Event e = eventId t) (events db) of
            None \<Rightarrow> Inl InconsistentRelation
          | Some e \<Rightarrow>
              Inr \<lparr>id_Ticket = id_Ticket t, jwtToken = jwtToken t, status = status t,
                   nonce = Ticket.nonce t, checkInTime = checkInTime t,
                   userId = userId t, eventId = eventId t,
                   createdAt = createdAt t, updatedAt = updatedAt t,
                   user = \<lparr>id_User = id_User u, fullName = fullName u, email = email u\<rparr>,
                   event = \<lparr>id_Event = id_Event e, title = title e,
                            dateTime = dateTime e\<rparr>\<rparr>))"

text \<open>\<^verbatim>\<open>prisma.ticket.findUnique({ where: { nonce }, include })\<close>.\<close>

definition prisma_ticket_findUnique ::
  "DB \<Rightarrow> string \<Rightarrow> PrismaError + TicketWithDetails option" where
  "prisma_ticket_findUnique db n =
     (case find (\<lambda>t. Ticket.nonce t = Some n) (tickets db) of
        None \<Rightarrow> Inr None
      | Some t \<Rightarrow>
         (case include_details db t of Inl e \<Rightarrow> Inl e | Inr d \<Rightarrow> Inr (Some d)))"

text \<open>
  What an update with \<^verbatim>\<open>data: { status, checkInTime, nonce }\<close> makes of a row: the
  three columns are set, and \<^verbatim>\<open>updatedAt\<close> is rewritten where the storage layer
  maintains it.
\<close>

definition write_row :: "Runtime \<Rightarrow> TicketStatus \<Rightarrow> nat \<Rightarrow> string \<Rightarrow> Ticket \<Rightarrow> Ticket" where
  "write_row rt s now n x =
     x\<lparr>status := s, checkInTime := Some now, nonce := Some n,
       updatedAt := (if maintainsUpdatedAt rt then storeNow rt else updatedAt x)\<rparr>"

text \<open>
  \<^verbatim>\<open>prisma.ticket.update({ where: { id }, data: { status, checkInTime, nonce }, include })\<close>.
  The row is selected by its identifier alone: the \<^verbatim>\<open>where\<close> clause names no
  status. The client throws when no row has the identifier, and when the new nonce
  is the nonce of another row (the column is unique, it is the key of
  \<^verbatim>\<open>findUnique\<close>).
\<close>

definition prisma_ticket_update ::
  "Runtime \<Rightarrow> DB \<Rightarrow> string \<Rightarrow> TicketStatus \<Rightarrow> nat \<Rightarrow> string
     \<Rightarrow> PrismaError + (TicketWithDetails \<times> DB)" where
  "prisma_ticket_update rt db i s now n =
     (case find (\<lambda>t. id_Ticket t = i) (tickets db) of
        None \<Rightarrow> Inl RecordNotFound
      | Some t \<Rightarrow>
          if list_ex (\<lambda>x. Ticket.nonce x = Some n \<and> id_Ticket x \<noteq> i) (tickets db)
          then Inl UniqueConstraintViolation
          else
            (let db' = db\<lparr>tickets :=
                   map (\<lambda>x. if id_Ticket x = i then write_row rt s now n x else x)
                     (tickets db)\<rparr>
             in case include_details db' (write_row rt s now n t) of
                  Inl e \<Rightarrow> Inl e
                | Inr d \<Rightarrow> Inr (d, db')))"

section \<open>Scanner validation: POST /api/scanner/validate\<close>

datatype Color = Green | Yellow | Red

record ValidationResult =
  valid :: bool
  color :: Color
  message :: string
  reason :: string
  ticket :: "TicketWithDetails option"

record HttpResponse =
  statusCode :: nat
  json :: ValidationResult

text \<open>The accesses to the store a handler makes, in order.\<close>

datatype LedgerOp = FindUniqueByNonce string | UpdateById string

text \<open>A red response without a ticket, as every rejecting branch builds it.\<close>

definition red_response :: "nat \<Rightarrow> string \<Rightarrow> string \<Rightarrow> HttpResponse" where
  "red_response code msg rsn =
     \<lparr>statusCode = code,
      json = \<lparr>valid = False, color = Red, message = msg, reason = rsn, ticket = None\<rparr>\<rparr>"

text \<open>The \<^verbatim>\<open>catch\<close> block of the handler.\<close>

definition system_error :: HttpResponse where
  "system_error = red_response 500 ''System error during validation'' ''Internal server error''"

text \<open>
  The handler suspends at its two \<^verbatim>\<open>await\<close>s, and each of them is one statement of
  the store. Its first part runs from the request to the checks on the row that
  \<^verbatim>\<open>findUnique\<close> returned (steps 1 to 5): it ends with a response, or with the row
  to check in.
\<close>

datatype Pending = Respond HttpResponse | CheckIn TicketWithDetails

definition already_checked_in :: "Runtime \<Rightarrow> TicketWithDetails \<Rightarrow> HttpResponse" where
  "already_checked_in rt t =
     \<lparr>statusCode = 200,
      json = \<lparr>valid = False, color = Yellow,
              message = ''Already checked in at '' @
                (case checkInTime t of None \<Rightarrow> ''undefined''
                 | Some c \<Rightarrow> toLocaleTimeString rt c),
              reason = ''Duplicate check-in attempt'',
              ticket = Some t\<rparr>\<rparr>"

definition validate_lookup ::
  "Runtime \<Rightarrow> Token \<Rightarrow> string \<Rightarrow> DB \<Rightarrow> Pending \<times> LedgerOp list" where
  "validate_lookup rt token eid db =
     (if token = Raw [] \<or> eid = [] then
        (Respond (red_response 400 ''Missing token or eventId'' ''Invalid request''), [])
      else
        (case verifyTicketToken (jwtService rt) token of
           None \<Rightarrow>
             (Respond (red_response 200 ''Invalid or counterfeit ticket''
                         ''JWT signature verification failed''), [])
         | Some payload \<Rightarrow>
             if evt payload \<noteq> eid then
               (Respond (red_response 200 ''Ticket is for a different event''
                           ''Event ID mismatch''), [])
             else
               (case prisma_ticket_findUnique db (TicketPayload.nonce payload) of
                  Inl e \<Rightarrow>
                    (Respond system_error, [FindUniqueByNonce (TicketPayload.nonce payload)])
                | Inr None \<Rightarrow>
                    (Respond (red_response 200 ''Ticket not found or counterfeit''
                                ''Nonce not found in database''),
                     [FindUniqueByNonce (TicketPayload.nonce payload)])
                | Inr (Some t) \<Rightarrow>
                    if status t = CHECKED_IN then
                      (Respond (already_checked_in rt t),
                       [FindUniqueByNonce (TicketPayload.nonce payload)])
                    else if status t \<noteq> REGISTERED then
                      (Respond (red_response 200 (''Ticket status: '' @ status_text (status t))
                                  (''Invalid status: '' @ status_text (status t))),
                       [FindUniqueByNonce (TicketPayload.nonce payload)])
                    else
                      (CheckIn t, [FindUniqueByNonce (TicketPayload.nonce payload)]))))"

text \<open>
  Its second part is step 6: the new nonce is drawn and the row is updated by its
  identifier; the response carries the row the update returned.
\<close>

definition validate_commit ::
  "Runtime \<Rightarrow> TicketWithDetails \<Rightarrow> DB \<Rightarrow> HttpResponse \<times> DB \<times> LedgerOp list" where
  "validate_commit rt t db =
     (let newNonce = rotateNonce rt in
      case prisma_ticket_update rt db (id_Ticket t) CHECKED_IN (dateNow rt) newNonce of
        Inl e \<Rightarrow> (system_error, db, [UpdateById (id_Ticket t)])
      | Inr (updatedTicket, db') \<Rightarrow>
          (\<lparr>statusCode = 200,
            json = \<lparr>valid = True, color = Green,
                    message = ''Welcome, '' @ fullName (user updatedTicket) @ ''!'',
                    reason = ''Successfully checked in'',
                    ticket = Some updatedTicket\<rparr>\<rparr>,
           db', [UpdateById (id_Ticket t)]))"

record Outcome =
  response :: HttpResponse
  store :: DB
  ledger :: "LedgerOp list"

text \<open>One request served with nothing else running in between.\<close>

definition validate :: "Runtime \<Rightarrow> Token \<Rightarrow> string \<Rightarrow> DB \<Rightarrow> Outcome" where
  "validate rt token eid db =
     (case validate_lookup rt token eid db of
        (Respond r, ops) \<Rightarrow> \<lparr>response = r, store = db, ledger = ops\<rparr>
      | (CheckIn t, ops) \<Rightarrow>
          (case validate_commit rt t db of
             (r, db', ops') \<Rightarrow> \<lparr>response = r, store = db', ledger = ops @ ops'\<rparr>))"

text \<open>
  Requests served concurrently. A request that was received runs its first part when
  it is next scheduled and is then suspended at the \<^verbatim>\<open>await\<close> of the update; a
  suspended request runs its second part; the store executes one statement at a time.
  A schedule lists which request moves next.
\<close>

datatype Invocation =
    Received Runtime Token string
  | Suspended Runtime TicketWithDetails
  | Answered HttpResponse

fun advance :: "Invocation \<Rightarrow> DB \<Rightarrow> Invocation \<times> DB" where
  "advance (Received rt token eid) db =
     (case fst (validate_lookup rt token eid db) of
        Respond r \<Rightarrow> (Answered r, db)
      | CheckIn t \<Rightarrow> (Suspended rt t, db))"
| "advance (Suspended rt t) db =
     (case validate_commit rt t db of (r, db', ops) \<Rightarrow> (Answered r, db'))"
| "advance (Answered r) db = (Answered r, db)"

fun run :: "nat list \<Rightarrow> Invocation list \<Rightarrow> DB \<Rightarrow> Invocation list \<times> DB" where
  "run [] invs db = (invs, db)"
| "run (i # schedule) invs db =
     (if i < length invs
      then (case advance (invs ! i) db of (inv', db') \<Rightarrow> run schedule (invs[i := inv']) db')
      else run schedule invs db)"

section \<open>Registration: POST /api/tickets/register\<close>

text \<open>
  The \<^verbatim>\<open>inviteToken\<close> of the request body is optional: it can be absent, JSON
  \<^verbatim>\<open>null\<close> or a string. The event's column is \<^verbatim>\<open>null\<close> or a string, and the
  handler compares the two with \<^verbatim>\<open>!==\<close>.
\<close>

datatype InviteInput = Absent | JsonNull | Given string

fun invite_differs :: "string option \<Rightarrow> InviteInput \<Rightarrow> bool" where
  "invite_differs None JsonNull = False"
| "invite_differs (Some s) (Given g) = (s \<noteq> g)"
| "invite_differs c g = True"

datatype RegisterResponse =
    EventNotFound
  | InvalidInvite
  | AlreadyRegistered Ticket
  | PaymentRequired Ticket string rat
  | Created Ticket Event User
  | RegisterFailed

text \<open>
  \<^verbatim>\<open>prisma.ticket.create({ data })\<close>. The store refuses a row whose identifier, whose
  (userId, eventId) pair or whose nonce another row has, and a row that points to no
  user or to no event. A handler names neither \<^verbatim>\<open>createdAt\<close> nor \<^verbatim>\<open>updatedAt\<close> in
  its \<^verbatim>\<open>data\<close>; the row handed over here already carries the time the storage layer
  stamps on it.
\<close>

definition prisma_ticket_create :: "DB \<Rightarrow> Ticket \<Rightarrow> PrismaError + (Ticket \<times> DB)" where
  "prisma_ticket_create db row =
     (if list_ex (\<lambda>t. id_Ticket t = id_Ticket row) (tickets db) then Inl UniqueConstraintViolation
      else if list_ex (\<lambda>t. userId t = userId row \<and> eventId t = eventId row) (tickets db)
        then Inl UniqueConstraintViolation
      else if Ticket.nonce row \<noteq> None
              \<and> list_ex (\<lambda>t. Ticket.nonce t = Ticket.nonce row) (tickets db)
        then Inl UniqueConstraintViolation
      else if find (\<lambda>u. id_User u = userId row) (users db) = None then Inl ForeignKeyViolation
      else if find (\<lambda>e. id_Event e = eventId row) (events db) = None then Inl ForeignKeyViolation
      else Inr (row, db\<lparr>tickets := tickets db @ [row]\<rparr>))"

text \<open>
  \<^verbatim>\<open>prisma.ticket.count({ where: { eventId, status: { in: ['REGISTERED', 'CHECKED_IN'] } } })\<close>.
\<close>

definition ticket_count :: "DB \<Rightarrow> string \<Rightarrow> nat" where
  "ticket_count db eid =
     length (filter (\<lambda>t. eventId t = eid \<and> (status t = REGISTERED \<or> status t = CHECKED_IN))
               (tickets db))"

definition register ::
  "Runtime \<Rightarrow> string \<Rightarrow> string \<Rightarrow> InviteInput \<Rightarrow> DB \<Rightarrow> RegisterResponse \<times> DB" where
  "register rt uid eid invite db =
     (case find (\<lambda>e. id_Event e = eid) (events db) of
        None \<Rightarrow> (EventNotFound, db)
      | Some ev \<Rightarrow>
          if isPrivate ev \<and> invite_differs (inviteToken ev) invite then (InvalidInvite, db)
          else
            (case find (\<lambda>t. userId t = uid \<and> eventId t = eid) (tickets db) of
               Some existingTicket \<Rightarrow> (AlreadyRegistered existingTicket, db)
             | None \<Rightarrow>
                 (let ticketCount = ticket_count db eid;
                      st = (if int ticketCount \<ge> capacity ev then WAITLISTED else REGISTERED);
                      requiresPayment = (price ev > 0)
                  in if requiresPayment then
                       (case prisma_ticket_create db
                               \<lparr>id_Ticket = newId rt, jwtToken = None, status = REGISTERED,
                                nonce = None, checkInTime = None,
                                userId = uid, eventId = eid,
                                createdAt = storeNow rt, updatedAt = storeNow rt\<rparr> of
                          Inl e \<Rightarrow> (RegisterFailed, db)
                        | Inr (t, db') \<Rightarrow> (PaymentRequired t ''demo_client_secret'' (price ev), db'))
                     else
                       (case generateTicketToken rt uid eid of
                          (token, n) \<Rightarrow>
                            (case prisma_ticket_create db
                                    \<lparr>id_Ticket = newId rt, jwtToken = Some token, status = st,
                                     nonce = Some n, checkInTime = None,
                                     userId = uid, eventId = eid,
                                     createdAt = storeNow rt, updatedAt = storeNow rt\<rparr> of
                               Inl e \<Rightarrow> (RegisterFailed, db)
                             | Inr (t, db') \<Rightarrow>
                                 (case find (\<lambda>u. id_User u = uid) (users db') of
                                    None \<Rightarrow> (RegisterFailed, db)
                                  | Some u \<Rightarrow> (Created t ev u, db')))))))"

section \<open>Constraints of the schema\<close>

text \<open>
  What the relational store guarantees of its tables: ticket identifiers are unique,
  no two tickets share a nonce, a (userId, eventId) pair has one ticket at most, and
  every ticket points to a user and to an event that exist.
\<close>

definition wf_db :: "DB \<Rightarrow> bool" where
  "wf_db db =
     (distinct (map id_Ticket (tickets db))
      \<and> distinct (List.map_filter Ticket.nonce (tickets db))
      \<and> distinct (map (\<lambda>t. (userId t, eventId t)) (tickets db))
      \<and> list_all (\<lambda>t. find (\<lambda>u. id_User u = userId t) (users db) \<noteq> None
                      \<and> find (\<lambda>e. id_Event e = eventId t) (events db) \<noteq> None) (tickets db))"

text \<open>The three outcome classes of the validator.\<close>

definition accepted :: "HttpResponse \<Rightarrow> bool" where
  "accepted r = (valid (json r) \<and> color (json r) = Green)"

definition duplicate :: "HttpResponse \<Rightarrow> bool" where
  "duplicate r = (\<not> valid (json r) \<and> color (json r) = Yellow)"

definition hard_reject :: "HttpResponse \<Rightarrow> bool" where
  "hard_reject r = (\<not> valid (json r) \<and> color (json r) = Red)"

section \<open>A small store for the examples\<close>

definition demo_service :: JWTService where
  "demo_service = \<lparr>privateKey = 1, publicKey = 1\<rparr>"

definition demo_runtime :: "nat \<Rightarrow> string \<Rightarrow> Runtime" where
  "demo_runtime now rnd =
     \<lparr>jwtService = demo_service, dateNow = now, randomHex = rnd, newId = ''t2'',
      toLocaleTimeString = (\<lambda>c. ''10:00:00''),
      storeNow = now, maintainsUpdatedAt = True\<rparr>"

definition demo_token :: Token where
  "demo_token = fst (generateTicketToken (demo_runtime 1000 ''a1'') ''u1'' ''e1'')"

definition demo_db :: DB where
  "demo_db =
     \<lparr>users = [\<lparr>id_User = ''u1'', fullName = ''Demo Attendee'',
                 email = ''attendee@example.com''\<rparr>,
               \<lparr>id_User = ''u2'', fullName = ''Second Attendee'',
                 email = ''second@example.com''\<rparr>],
      events = [\<lparr>id_Event = ''e1'', title = ''Open Source Contributor Summit'',
                  dateTime = 5000, price = 0, capacity = 200, isPrivate = False,
                  inviteToken = None\<rparr>,
                \<lparr>id_Event = ''e2'', title = ''Tech Conference'',
                  dateTime = 6000, price = 25, capacity = 1, isPrivate = False,
                  inviteToken = None\<rparr>],
      tickets = [\<lparr>id_Ticket = ''t1'', jwtToken = Some demo_token, status = REGISTERED,
                   nonce = Some ''a1'', checkInTime = None,
                   userId = ''u1'', eventId = ''e1'',
                   createdAt = 1000, updatedAt = 1000\<rparr>,
                 \<lparr>id_Ticket = ''t0'', jwtToken = None, status = REGISTERED,
                   nonce = None, checkInTime = None,
                   userId = ''u1'', eventId = ''e2'',
                   createdAt = 1000, updatedAt = 1000\<rparr>]\<rparr>"

section \<open>Auxiliary notions for the properties\<close>

text \<open>The nonce a stored token carries in its payload, read without verification.\<close>

fun embedded_nonce :: "Token \<Rightarrow> string option" where
  "embedded_nonce (Raw s) = None"
| "embedded_nonce (Jwt alg p sg) = Some (TicketPayload.nonce p)"

text \<open>How a request that ran under a schedule ended.\<close>

datatype Verdict = Accept | Duplicate | HardReject | Unanswered

fun verdict :: "Invocation \<Rightarrow> Verdict" where
  "verdict (Answered r) =
     (if accepted r then Accept else if duplicate r then Duplicate else HardReject)"
| "verdict pending = Unanswered"

text \<open>A correctly signed credential whose nonce no ticket of the example store holds.\<close>

definition unknown_token :: Token where
  "unknown_token = fst (generateTicketToken (demo_runtime 1000 ''ff'') ''u1'' ''e1'')"

section \<open>Properties\<close>

lemmas validate_defs = validate_def validate_lookup_def validate_commit_def
  prisma_ticket_update_def write_row_def prisma_ticket_findUnique_def include_details_def
  verifyTicketToken_def rotateNonce_def generateNonce_def red_response_def system_error_def
  already_checked_in_def

lemmas demo_defs = demo_db_def demo_token_def demo_runtime_def demo_service_def
  generateTicketToken_def jwt_sign_def generateNonce_def

lemma find_by_nonce:
  "distinct (List.map_filter Ticket.nonce ts) \<Longrightarrow> t \<in> set ts \<Longrightarrow> Ticket.nonce t = Some n
   \<Longrightarrow> find (\<lambda>x. Ticket.nonce x = Some n) ts = Some t"
proof (induction ts)
  case Nil
  then show ?case by simp
next
  case (Cons a ts)
  show ?case
  proof (cases "Ticket.nonce a = Some n")
    case True
    have "a = t"
    proof (rule ccontr)
      assume "a \<noteq> t"
      with Cons.prems have "t \<in> set ts" by auto
      with Cons.prems(3) have "n \<in> set (List.map_filter Ticket.nonce ts)"
        by (force simp: List.map_filter_def)
      with Cons.prems(1) True show False by (simp add: List.map_filter_def)
    qed
    with True show ?thesis by simp
  next
    case False
    with Cons.prems have "t \<in> set ts" by auto
    moreover from Cons.prems(1) have "distinct (List.map_filter Ticket.nonce ts)"
      by (cases "Ticket.nonce a") (simp_all add: List.map_filter_def)
    ultimately show ?thesis using Cons.IH Cons.prems(3) False by simp
  qed
qed

lemma find_by_id:
  "distinct (map id_Ticket ts) \<Longrightarrow> t \<in> set ts
   \<Longrightarrow> find (\<lambda>x. id_Ticket x = id_Ticket t) ts = Some t"
  by (induction ts) (auto)

lemma map_update_distinct:
  assumes "distinct (map k xs)" "i < length xs"
  shows "map (\<lambda>x. if k x = k (xs ! i) then g x else x) xs = xs[i := g (xs ! i)]"
proof (rule nth_equalityI)
  show "length (map (\<lambda>x. if k x = k (xs ! i) then g x else x) xs) = length (xs[i := g (xs ! i)])"
    by simp
next
  fix j assume j: "j < length (map (\<lambda>x. if k x = k (xs ! i) then g x else x) xs)"
  then have jl: "j < length xs" by simp
  show "map (\<lambda>x. if k x = k (xs ! i) then g x else x) xs ! j = xs[i := g (xs ! i)] ! j"
  proof (cases "j = i")
    case True
    with assms(2) show ?thesis by simp
  next
    case False
    with assms jl have "k (xs ! j) \<noteq> k (xs ! i)"
      by (auto simp: distinct_conv_nth)
    with False jl show ?thesis by simp
  qed
qed

lemma write_row_fields [simp]:
  "id_Ticket (write_row rt s c n x) = id_Ticket x"
  "jwtToken (write_row rt s c n x) = jwtToken x"
  "userId (write_row rt s c n x) = userId x"
  "eventId (write_row rt s c n x) = eventId x"
  "createdAt (write_row rt s c n x) = createdAt x"
  "status (write_row rt s c n x) = s"
  "checkInTime (write_row rt s c n x) = Some c"
  "Ticket.nonce (write_row rt s c n x) = Some n"
  "updatedAt (write_row rt s c n x) = (if maintainsUpdatedAt rt then storeNow rt else updatedAt x)"
  by (simp_all add: write_row_def)

lemma include_details_fields:
  "include_details db t = Inr d \<Longrightarrow>
     id_Ticket d = id_Ticket t \<and> status d = status t \<and> Ticket.nonce d = Ticket.nonce t
     \<and> jwtToken d = jwtToken t \<and> checkInTime d = checkInTime t
     \<and> userId d = userId t \<and> eventId d = eventId t
     \<and> createdAt d = createdAt t \<and> updatedAt d = updatedAt t"
  by (auto simp: include_details_def split: option.splits)

lemma include_details_wf:
  assumes "wf_db db" "t \<in> set (tickets db)"
  obtains d where "include_details db t = Inr d" "id_Ticket d = id_Ticket t"
    "status d = status t" "Ticket.nonce d = Ticket.nonce t" "jwtToken d = jwtToken t"
    "checkInTime d = checkInTime t"
proof -
  from assms have "find (\<lambda>u. id_User u = userId t) (users db) \<noteq> None"
    and "find (\<lambda>e. id_Event e = eventId t) (events db) \<noteq> None"
    by (auto simp: wf_db_def list_all_iff)
  then obtain d where "include_details db t = Inr d"
    by (auto simp: include_details_def)
  with include_details_fields[OF this] that show ?thesis by blast
qed

lemma include_details_update:
  "include_details db t = Inr d \<Longrightarrow>
     \<exists>d'. include_details (db\<lparr>tickets := ts\<rparr>) (write_row rt s c n t) = Inr d'"
  by (auto simp: include_details_def write_row_def split: option.splits)

lemma lookup_registered:
  assumes wf: "wf_db db"
    and tok: "token \<noteq> Raw []" "eid \<noteq> []"
    and ver: "verifyTicketToken (jwtService rt) token = Some p" "evt p = eid"
    and row: "t \<in> set (tickets db)" "Ticket.nonce t = Some (TicketPayload.nonce p)"
      "status t = REGISTERED"
  obtains d where "validate_lookup rt token eid db
      = (CheckIn d, [FindUniqueByNonce (TicketPayload.nonce p)])"
    "include_details db t = Inr d"
proof -
  from wf row have f: "find (\<lambda>x. Ticket.nonce x = Some (TicketPayload.nonce p)) (tickets db) = Some t"
    by (intro find_by_nonce) (simp_all add: wf_db_def)
  from include_details_wf[OF wf row(1)] obtain d where d: "include_details db t = Inr d"
    "status d = status t" by metis
  have "validate_lookup rt token eid db
      = (CheckIn d, [FindUniqueByNonce (TicketPayload.nonce p)])"
    using tok ver f d row(3) by (simp add: validate_lookup_def prisma_ticket_findUnique_def)
  with d show ?thesis using that by blast
qed

lemma commit_accepts:
  assumes wf: "wf_db db"
    and row: "t \<in> set (tickets db)" "id_Ticket d = id_Ticket t"
    and fresh: "\<not> list_ex (\<lambda>x. Ticket.nonce x = Some (randomHex rt)
                  \<and> id_Ticket x \<noteq> id_Ticket t) (tickets db)"
  shows "accepted (fst (validate_commit rt d db))"
proof -
  from wf row have f: "find (\<lambda>x. id_Ticket x = id_Ticket d) (tickets db) = Some t"
    using find_by_id[of "tickets db" t] by (simp add: wf_db_def)
  from include_details_wf[OF wf row(1)] obtain d0 where "include_details db t = Inr d0" by metis
  from include_details_update[OF this] obtain d' where "include_details
      (db\<lparr>tickets := map (\<lambda>x. if id_Ticket x = id_Ticket d
             then write_row rt CHECKED_IN (dateNow rt) (randomHex rt) x else x) (tickets db)\<rparr>)
      (write_row rt CHECKED_IN (dateNow rt) (randomHex rt) t)
      = Inr d'"
    by blast
  with f fresh row(2) show ?thesis
    by (simp add: validate_commit_def prisma_ticket_update_def rotateNonce_def generateNonce_def
        accepted_def Let_def)
qed

lemma validate_CheckIn:
  "validate_lookup rt token eid db = (CheckIn d, ops) \<Longrightarrow>
     response (validate rt token eid db) = fst (validate_commit rt d db)
   \<and> store (validate rt token eid db) = fst (snd (validate_commit rt d db))
   \<and> ledger (validate rt token eid db) = ops @ snd (snd (validate_commit rt d db))"
  by (simp add: validate_def split: prod.splits)

lemma validate_Respond:
  "validate_lookup rt token eid db = (Respond r, ops) \<Longrightarrow>
     validate rt token eid db = \<lparr>response = r, store = db, ledger = ops\<rparr>"
  by (simp add: validate_def)

lemma demo_wf: "wf_db demo_db"
  by (simp add: wf_db_def demo_db_def List.map_filter_def)

lemma lookup_Respond_not_valid:
  "validate_lookup rt token eid db = (Respond r, ops) \<Longrightarrow> \<not> valid (json r)"
  by (auto simp: validate_lookup_def red_response_def system_error_def already_checked_in_def
      split: if_splits option.splits sum.splits)

lemma lookup_CheckIn_D:
  assumes "validate_lookup rt token eid db = (CheckIn d, ops)"
  obtains p old where "verifyTicketToken (jwtService rt) token = Some p" "evt p = eid"
    "find (\<lambda>x. Ticket.nonce x = Some (TicketPayload.nonce p)) (tickets db) = Some old"
    "include_details db old = Inr d" "status old = REGISTERED"
    "ops = [FindUniqueByNonce (TicketPayload.nonce p)]"
proof -
  from assms obtain p where p: "verifyTicketToken (jwtService rt) token = Some p" "evt p = eid"
    and f: "prisma_ticket_findUnique db (TicketPayload.nonce p) = Inr (Some d)"
    and st: "status d = REGISTERED"
    and ops: "ops = [FindUniqueByNonce (TicketPayload.nonce p)]"
    by (auto simp: validate_lookup_def split: if_splits option.splits sum.splits)
  from f obtain old where
    old: "find (\<lambda>x. Ticket.nonce x = Some (TicketPayload.nonce p)) (tickets db) = Some old"
      "include_details db old = Inr d"
    by (auto simp: prisma_ticket_findUnique_def split: option.splits sum.splits)
  with st have "status old = REGISTERED" by (simp add: include_details_fields)
  with p old ops that show ?thesis by blast
qed

lemma commit_accepted_D:
  assumes "valid (json (fst (validate_commit rt d db)))"
  obtains t0 u where "find (\<lambda>x. id_Ticket x = id_Ticket d) (tickets db) = Some t0"
    "include_details (db\<lparr>tickets := map (\<lambda>x. if id_Ticket x = id_Ticket d
             then write_row rt CHECKED_IN (dateNow rt) (randomHex rt) x else x) (tickets db)\<rparr>)
        (write_row rt CHECKED_IN (dateNow rt) (randomHex rt) t0) = Inr u"
    "ticket (json (fst (validate_commit rt d db))) = Some u"
    "fst (snd (validate_commit rt d db)) = db\<lparr>tickets := map (\<lambda>x. if id_Ticket x = id_Ticket d
             then write_row rt CHECKED_IN (dateNow rt) (randomHex rt) x else x) (tickets db)\<rparr>"
  using assms
  by (auto simp: validate_commit_def prisma_ticket_update_def rotateNonce_def generateNonce_def
      system_error_def red_response_def Let_def split: option.splits sum.splits if_splits)

lemma accepted_validate_D:
  assumes "accepted (response (validate rt token eid db))"
  obtains d ops where "validate_lookup rt token eid db = (CheckIn d, ops)"
    "valid (json (fst (validate_commit rt d db)))"
proof (cases "validate_lookup rt token eid db")
  case (Pair pend ops)
  show ?thesis
  proof (cases pend)
    case (Respond r)
    with Pair assms lookup_Respond_not_valid[of rt token eid db r ops] show ?thesis
      by (simp add: validate_Respond accepted_def)
  next
    case (CheckIn d)
    with Pair assms validate_CheckIn[of rt token eid db d ops] that show ?thesis
      by (simp add: accepted_def)
  qed
qed

lemma lookup_CheckIn_nonempty:
  "validate_lookup rt token eid db = (CheckIn d, ops) \<Longrightarrow> token \<noteq> Raw [] \<and> eid \<noteq> []"
  by (auto simp: validate_lookup_def split: if_splits)

lemma validate_ticket_from_store:
  assumes "ticket (json (response (validate rt token eid db))) = Some u"
  shows "\<exists>x \<in> set (tickets db). id_Ticket x = id_Ticket u \<and> Ticket.nonce x \<noteq> None"
proof (cases "validate_lookup rt token eid db")
  case (Pair pend ops)
  show ?thesis
  proof (cases pend)
    case (Respond r)
    with Pair assms have r: "ticket (json r) = Some u" by (simp add: validate_Respond)
    with Pair Respond obtain n x where "find (\<lambda>x. Ticket.nonce x = Some n) (tickets db) = Some x"
      "include_details db x = Inr u"
      by (auto simp: validate_lookup_def red_response_def system_error_def already_checked_in_def
          prisma_ticket_findUnique_def split: if_splits option.splits sum.splits)
    then show ?thesis by (auto simp: find_Some_iff include_details_fields)
  next
    case (CheckIn d)
    with Pair have l: "validate_lookup rt token eid db = (CheckIn d, ops)" by simp
    from l obtain p old where
      ver: "verifyTicketToken (jwtService rt) token = Some p" "evt p = eid" and
      old: "find (\<lambda>x. Ticket.nonce x = Some (TicketPayload.nonce p)) (tickets db) = Some old"
        "include_details db old = Inr d" "status old = REGISTERED" and
      ops: "ops = [FindUniqueByNonce (TicketPayload.nonce p)]"
      by (rule lookup_CheckIn_D)
    from assms validate_CheckIn[OF l]
    have t: "ticket (json (fst (validate_commit rt d db))) = Some u" by simp
    then have "valid (json (fst (validate_commit rt d db)))"
      by (auto simp: validate_commit_def system_error_def red_response_def Let_def
          split: sum.splits)
    then obtain t0 u' where "find (\<lambda>x. id_Ticket x = id_Ticket d) (tickets db) = Some t0"
      and u: "include_details (db\<lparr>tickets := map (\<lambda>x. if id_Ticket x = id_Ticket d
             then write_row rt CHECKED_IN (dateNow rt) (randomHex rt) x else x) (tickets db)\<rparr>)
        (write_row rt CHECKED_IN (dateNow rt) (randomHex rt) t0) = Inr u'"
        "ticket (json (fst (validate_commit rt d db))) = Some u'"
      by (rule commit_accepted_D)
    with t have "id_Ticket u = id_Ticket d"
      using include_details_fields[OF u(1)] by (auto simp: find_Some_iff)
    with old show ?thesis by (auto simp: find_Some_iff include_details_fields)
  qed
qed

lemma run_alone:
  "run [0, 0] [Received rt token eid] db
     = ([Answered (response (validate rt token eid db))], store (validate rt token eid db))"
  by (cases "validate_lookup rt token eid db"; cases "fst (validate_lookup rt token eid db)")
     (auto simp: validate_def split: prod.splits)

subsection \<open>Order of the checks\<close>

text \<open>
  Claim C7. The validator checks signature, audience, existence, status and then makes
  the transition, and stops at the first check that fails. An input whose signature
  does not verify is rejected (red, not valid) with no access to the store at all and
  the store unchanged. For a request that carries a token and an event identifier:
  a failed signature answers before the audience is looked at; a wrong audience
  answers before the store is read; an unknown nonce, a ticket already checked in and
  a ticket in another status each answer after the single lookup and without any
  write; only a REGISTERED ticket reaches the update, which comes after the lookup.
\<close>

theorem validate_check_order:
  "(verifyTicketToken (jwtService rt) token = None \<longrightarrow>
      hard_reject (response (validate rt token eid db))
      \<and> ledger (validate rt token eid db) = []
      \<and> store (validate rt token eid db) = db)
   \<and> (token \<noteq> Raw [] \<and> eid \<noteq> [] \<and> verifyTicketToken (jwtService rt) token = None \<longrightarrow>
      reason (json (response (validate rt token eid db))) = ''JWT signature verification failed'')
   \<and> (token \<noteq> Raw [] \<and> eid \<noteq> [] \<and> verifyTicketToken (jwtService rt) token = Some p
        \<and> evt p \<noteq> eid \<longrightarrow>
      hard_reject (response (validate rt token eid db))
      \<and> reason (json (response (validate rt token eid db))) = ''Event ID mismatch''
      \<and> ledger (validate rt token eid db) = []
      \<and> store (validate rt token eid db) = db)
   \<and> (token \<noteq> Raw [] \<and> eid \<noteq> [] \<and> verifyTicketToken (jwtService rt) token = Some p
        \<and> evt p = eid \<and> prisma_ticket_findUnique db (TicketPayload.nonce p) = Inr None \<longrightarrow>
      hard_reject (response (validate rt token eid db))
      \<and> reason (json (response (validate rt token eid db))) = ''Nonce not found in database''
      \<and> ledger (validate rt token eid db) = [FindUniqueByNonce (TicketPayload.nonce p)]
      \<and> store (validate rt token eid db) = db)
   \<and> (token \<noteq> Raw [] \<and> eid \<noteq> [] \<and> verifyTicketToken (jwtService rt) token = Some p
        \<and> evt p = eid \<and> prisma_ticket_findUnique db (TicketPayload.nonce p) = Inr (Some t)
        \<and> status t = CHECKED_IN \<longrightarrow>
      duplicate (response (validate rt token eid db))
      \<and> ledger (validate rt token eid db) = [FindUniqueByNonce (TicketPayload.nonce p)]
      \<and> store (validate rt token eid db) = db)
   \<and> (token \<noteq> Raw [] \<and> eid \<noteq> [] \<and> verifyTicketToken (jwtService rt) token = Some p
        \<and> evt p = eid \<and> prisma_ticket_findUnique db (TicketPayload.nonce p) = Inr (Some t)
        \<and> status t \<noteq> CHECKED_IN \<and> status t \<noteq> REGISTERED \<longrightarrow>
      hard_reject (response (validate rt token eid db))
      \<and> reason (json (response (validate rt token eid db)))
            = ''Invalid status: '' @ status_text (status t)
      \<and> ledger (validate rt token eid db) = [FindUniqueByNonce (TicketPayload.nonce p)]
      \<and> store (validate rt token eid db) = db)
   \<and> (token \<noteq> Raw [] \<and> eid \<noteq> [] \<and> verifyTicketToken (jwtService rt) token = Some p
        \<and> evt p = eid \<and> prisma_ticket_findUnique db (TicketPayload.nonce p) = Inr (Some t)
        \<and> status t = REGISTERED \<longrightarrow>
      ledger (validate rt token eid db)
        = [FindUniqueByNonce (TicketPayload.nonce p), UpdateById (id_Ticket t)])"
  by (simp add: validate_def validate_lookup_def validate_commit_def hard_reject_def duplicate_def
      red_response_def already_checked_in_def Let_def split: sum.splits prod.splits)

theorem validate_check_order_witness:
  "verifyTicketToken (jwtService (demo_runtime 2000 ''b2'')) (Raw ''garbage'') = None
   \<and> hard_reject (response (validate (demo_runtime 2000 ''b2'') (Raw ''garbage'') ''e1'' demo_db))
   \<and> ledger (validate (demo_runtime 2000 ''b2'') (Raw ''garbage'') ''e1'' demo_db) = []
   \<and> store (validate (demo_runtime 2000 ''b2'') (Raw ''garbage'') ''e1'' demo_db) = demo_db
   \<and> ledger (validate (demo_runtime 2000 ''b2'') demo_token ''e1'' demo_db)
       = [FindUniqueByNonce ''a1'', UpdateById ''t1'']"
proof -
  have v: "verifyTicketToken (jwtService (demo_runtime 2000 ''b2'')) (Raw ''garbage'') = None"
    by (simp add: verifyTicketToken_def)
  from validate_check_order[where rt = "demo_runtime 2000 ''b2''" and token = "Raw ''garbage''"
      and eid = "''e1''" and db = demo_db]
  have "verifyTicketToken (jwtService (demo_runtime 2000 ''b2'')) (Raw ''garbage'') = None \<longrightarrow>
      hard_reject (response (validate (demo_runtime 2000 ''b2'') (Raw ''garbage'') ''e1'' demo_db))
      \<and> ledger (validate (demo_runtime 2000 ''b2'') (Raw ''garbage'') ''e1'' demo_db) = []
      \<and> store (validate (demo_runtime 2000 ''b2'') (Raw ''garbage'') ''e1'' demo_db) = demo_db"
    by (rule conjunct1)
  with v have first: "hard_reject (response (validate (demo_runtime 2000 ''b2'') (Raw ''garbage'') ''e1'' demo_db))
      \<and> ledger (validate (demo_runtime 2000 ''b2'') (Raw ''garbage'') ''e1'' demo_db) = []
      \<and> store (validate (demo_runtime 2000 ''b2'') (Raw ''garbage'') ''e1'' demo_db) = demo_db"
    by (rule mp[rotated])
  have last: "ledger (validate (demo_runtime 2000 ''b2'') demo_token ''e1'' demo_db)
       = [FindUniqueByNonce ''a1'', UpdateById ''t1'']"
    using validate_check_order[where rt = "demo_runtime 2000 ''b2''" and token = demo_token
        and eid = "''e1''" and db = demo_db
        and p = "\<lparr>sub = ''u1'', evt = ''e1'', iat = 1, nonce = ''a1''\<rparr>"
        and t = "projr (include_details demo_db (hd (tickets demo_db)))"]
    by (simp add: demo_defs verifyTicketToken_def prisma_ticket_findUnique_def
        include_details_def Let_def)
  from v first last show ?thesis by simp
qed

subsection \<open>Round trip of an issued credential\<close>

text \<open>
  Claim C6. For every user U and event E: when a ticket with status REGISTERED holds
  the nonce embedded in the credential issued for (U, E), validating that credential
  against audience E is accepted. The clock at issuance (\<open>dateNow rt0\<close>) and the
  clock at validation (\<open>dateNow rt\<close>) are unrelated: the credential has no expiry
  claim and verification does not read the clock. The event identifier is a
  non-empty string, the validator verifies with the public half of the key pair that
  signed, the store satisfies the constraints of its schema, and the nonce drawn for
  the rotation is not the nonce of another ticket.
\<close>

theorem issued_credential_accepted:
  assumes wf: "wf_db db"
    and keys: "publicKey (jwtService rt) = privateKey (jwtService rt0)"
    and ev: "E \<noteq> []"
    and issued: "generateTicketToken rt0 U E = (token, n)"
    and row: "t \<in> set (tickets db)" "Ticket.nonce t = Some n" "status t = REGISTERED"
    and fresh: "\<not> list_ex (\<lambda>x. Ticket.nonce x = Some (randomHex rt)
                  \<and> id_Ticket x \<noteq> id_Ticket t) (tickets db)"
  shows "accepted (response (validate rt token E db))"
proof -
  define p where "p = \<lparr>sub = U, evt = E, iat = dateNow rt0 div 1000, nonce = n\<rparr>"
  from issued have tok: "token = Jwt RS256 p (Signature RS256 (privateKey (jwtService rt0)) p)"
    and n: "n = randomHex rt0"
    by (auto simp: generateTicketToken_def jwt_sign_def generateNonce_def p_def Let_def)
  have ver: "verifyTicketToken (jwtService rt) token = Some p"
    by (simp add: verifyTicketToken_def tok keys)
  have pn: "TicketPayload.nonce p = n" "evt p = E" by (simp_all add: p_def)
  from tok have ne: "token \<noteq> Raw []" by simp
  obtain d where d: "validate_lookup rt token E db = (CheckIn d, [FindUniqueByNonce n])"
    "include_details db t = Inr d"
    using lookup_registered[OF wf ne ev ver pn(2) row(1) _ row(3)] row(2) pn(1) by metis
  then have "id_Ticket d = id_Ticket t" by (simp add: include_details_fields)
  from commit_accepts[OF wf row(1) this fresh] validate_CheckIn[OF d(1)] show ?thesis
    by simp
qed


theorem issued_credential_accepted_witness:
  "wf_db demo_db
   \<and> generateTicketToken (demo_runtime 1000 ''a1'') ''u1'' ''e1'' = (demo_token, ''a1'')
   \<and> accepted (response (validate (demo_runtime 86400000 ''b2'') demo_token ''e1'' demo_db))"
proof -
  have issued: "generateTicketToken (demo_runtime 1000 ''a1'') ''u1'' ''e1'' = (demo_token, ''a1'')"
    by (simp add: demo_token_def generateTicketToken_def generateNonce_def demo_runtime_def Let_def)
  have "accepted (response (validate (demo_runtime 86400000 ''b2'') demo_token ''e1'' demo_db))"
    by (rule issued_credential_accepted[where ?rt0.0 = "demo_runtime 1000 ''a1''" and U = "''u1''"
          and n = "''a1''" and t = "hd (tickets demo_db)", OF demo_wf _ _ issued])
       (simp_all add: demo_db_def demo_runtime_def demo_service_def)
  with demo_wf issued show ?thesis by simp
qed

subsection \<open>Wrong event\<close>

text \<open>
  Claim C8. A credential whose embedded audience differs from the audience it is
  validated against is rejected (red, not valid), whatever its signature and whether
  or not its nonce is live; the store is not accessed and is left as it was, so the
  ticket keeps its status, its nonce and its unset check-in time.
\<close>

theorem wrong_audience_rejected:
  "evt p \<noteq> eid \<Longrightarrow>
     hard_reject (response (validate rt (Jwt alg p sg) eid db))
   \<and> ledger (validate rt (Jwt alg p sg) eid db) = []
   \<and> store (validate rt (Jwt alg p sg) eid db) = db"
  by (simp add: validate_def validate_lookup_def hard_reject_def red_response_def
      verifyTicketToken_def)

theorem wrong_audience_rejected_witness:
  "demo_token = Jwt RS256 \<lparr>sub = ''u1'', evt = ''e1'', iat = 1, nonce = ''a1''\<rparr>
       (Signature RS256 1 \<lparr>sub = ''u1'', evt = ''e1'', iat = 1, nonce = ''a1''\<rparr>)
   \<and> verifyTicketToken (jwtService (demo_runtime 2000 ''b2'')) demo_token
       = Some \<lparr>sub = ''u1'', evt = ''e1'', iat = 1, nonce = ''a1''\<rparr>
   \<and> hard_reject (response (validate (demo_runtime 2000 ''b2'') demo_token ''e2'' demo_db))
   \<and> store (validate (demo_runtime 2000 ''b2'') demo_token ''e2'' demo_db) = demo_db
   \<and> map status (tickets (store (validate (demo_runtime 2000 ''b2'') demo_token ''e2'' demo_db)))
       = [REGISTERED, REGISTERED]"
proof -
  have tok: "demo_token = Jwt RS256 \<lparr>sub = ''u1'', evt = ''e1'', iat = 1, nonce = ''a1''\<rparr>
       (Signature RS256 1 \<lparr>sub = ''u1'', evt = ''e1'', iat = 1, nonce = ''a1''\<rparr>)"
    by (simp add: demo_defs Let_def)
  have ne: "evt \<lparr>sub = ''u1'', evt = ''e1'', iat = 1, nonce = ''a1''\<rparr> \<noteq> ''e2''" by simp
  from wrong_audience_rejected[OF ne, where rt = "demo_runtime 2000 ''b2''" and alg = RS256
      and sg = "Signature RS256 1 \<lparr>sub = ''u1'', evt = ''e1'', iat = 1, nonce = ''a1''\<rparr>"
      and db = demo_db] tok
  have "hard_reject (response (validate (demo_runtime 2000 ''b2'') demo_token ''e2'' demo_db))
      \<and> store (validate (demo_runtime 2000 ''b2'') demo_token ''e2'' demo_db) = demo_db"
    by simp
  moreover have "map status (tickets demo_db) = [REGISTERED, REGISTERED]"
    by (simp add: demo_db_def)
  moreover have "verifyTicketToken (jwtService (demo_runtime 2000 ''b2'')) demo_token
       = Some \<lparr>sub = ''u1'', evt = ''e1'', iat = 1, nonce = ''a1''\<rparr>"
    by (simp add: tok verifyTicketToken_def demo_runtime_def demo_service_def)
  ultimately show ?thesis using tok by simp
qed

subsection \<open>What a successful check-in writes\<close>




subsection \<open>The accepted response\<close>

text \<open>
  Claim C5, as amended. For every accepted validation the response carries the
  updated ticket, and the nonce field of that ticket is the freshly generated nonce
  that replaced the ticket's nonce; its status is CHECKED_IN.
\<close>

theorem accept_returns_new_nonce:
  assumes "accepted (response (validate rt token eid db))"
  shows "map_option Ticket.nonce (ticket (json (response (validate rt token eid db))))
           = Some (Some (rotateNonce rt))
       \<and> map_option status (ticket (json (response (validate rt token eid db))))
           = Some CHECKED_IN"
proof -
  from assms obtain d ops where l: "validate_lookup rt token eid db = (CheckIn d, ops)"
    and v: "valid (json (fst (validate_commit rt d db)))" by (rule accepted_validate_D)
  from v obtain t0 u where u: "include_details (db\<lparr>tickets := map (\<lambda>x. if id_Ticket x = id_Ticket d
             then write_row rt CHECKED_IN (dateNow rt) (randomHex rt) x else x) (tickets db)\<rparr>)
        (write_row rt CHECKED_IN (dateNow rt) (randomHex rt) t0) = Inr u"
    "ticket (json (fst (validate_commit rt d db))) = Some u" by (rule commit_accepted_D)
  from include_details_fields[OF u(1)] u(2) validate_CheckIn[OF l] show ?thesis
    by (simp add: rotateNonce_def generateNonce_def)
qed

theorem accept_returns_new_nonce_witness:
  "accepted (response (validate (demo_runtime 2000 ''b2'') demo_token ''e1'' demo_db))
   \<and> map_option Ticket.nonce
        (ticket (json (response (validate (demo_runtime 2000 ''b2'') demo_token ''e1'' demo_db))))
       = Some (Some (rotateNonce (demo_runtime 2000 ''b2'')))
   \<and> map_option status
        (ticket (json (response (validate (demo_runtime 2000 ''b2'') demo_token ''e1'' demo_db))))
       = Some CHECKED_IN"
proof -
  have a: "accepted (response (validate (demo_runtime 2000 ''b2'') demo_token ''e1'' demo_db))"
    by (simp add: validate_defs demo_defs accepted_def Let_def)
  from accept_returns_new_nonce[OF a] a show ?thesis by simp
qed

text \<open>
  The claim as first stated, that the accepted response does not contain the new
  nonce, fails on the example store: the response holds the nonce \<open>b2\<close> that the
  rotation drew.
\<close>

theorem accept_contains_new_nonce:
  "accepted (response (validate (demo_runtime 2000 ''b2'') demo_token ''e1'' demo_db))
   \<and> rotateNonce (demo_runtime 2000 ''b2'') = ''b2''
   \<and> map_option Ticket.nonce
        (ticket (json (response (validate (demo_runtime 2000 ''b2'') demo_token ''e1'' demo_db))))
       = Some (Some ''b2'')"
  by (simp add: validate_defs demo_defs accepted_def Let_def)

subsection \<open>Rejections and what they reveal\<close>

text \<open>
  Claim C4, as amended. A rejection for an invalid signature and a rejection for an
  unknown nonce share the coarse classification (status code 200, not valid, red, no
  ticket), and they differ in their message and reason, which name the check that
  failed: ``JWT signature verification failed'' against ``Nonce not found in
  database''.
\<close>

theorem reject_responses_coarse:
  assumes "token1 \<noteq> Raw []" "eid1 \<noteq> []" "verifyTicketToken (jwtService rt1) token1 = None"
    and "token2 \<noteq> Raw []" "eid2 \<noteq> []" "verifyTicketToken (jwtService rt2) token2 = Some p"
      "evt p = eid2" "prisma_ticket_findUnique db2 (TicketPayload.nonce p) = Inr None"
  shows "hard_reject (response (validate rt1 token1 eid1 db1))
       \<and> hard_reject (response (validate rt2 token2 eid2 db2))
       \<and> statusCode (response (validate rt1 token1 eid1 db1))
            = statusCode (response (validate rt2 token2 eid2 db2))
       \<and> ticket (json (response (validate rt1 token1 eid1 db1)))
            = ticket (json (response (validate rt2 token2 eid2 db2)))
       \<and> statusCode (response (validate rt1 token1 eid1 db1)) = 200
       \<and> statusCode (response (validate rt2 token2 eid2 db2)) = 200
       \<and> ticket (json (response (validate rt1 token1 eid1 db1))) = None
       \<and> ticket (json (response (validate rt2 token2 eid2 db2))) = None
       \<and> reason (json (response (validate rt1 token1 eid1 db1)))
            = ''JWT signature verification failed''
       \<and> reason (json (response (validate rt2 token2 eid2 db2)))
            = ''Nonce not found in database''
       \<and> message (json (response (validate rt1 token1 eid1 db1)))
            = ''Invalid or counterfeit ticket''
       \<and> message (json (response (validate rt2 token2 eid2 db2)))
            = ''Ticket not found or counterfeit''"
  using assms
  by (simp add: validate_def validate_lookup_def hard_reject_def red_response_def)

theorem reject_responses_coarse_witness:
  "hard_reject (response (validate (demo_runtime 2000 ''b2'') (Raw ''garbage'') ''e1'' demo_db))
   \<and> statusCode (response (validate (demo_runtime 2000 ''b2'') (Raw ''garbage'') ''e1'' demo_db))
       = statusCode (response (validate (demo_runtime 2000 ''b2'') unknown_token ''e1'' demo_db))
   \<and> reason (json (response (validate (demo_runtime 2000 ''b2'') (Raw ''garbage'') ''e1'' demo_db)))
       = ''JWT signature verification failed''
   \<and> reason (json (response (validate (demo_runtime 2000 ''b2'') unknown_token ''e1'' demo_db)))
       = ''Nonce not found in database''"
  using reject_responses_coarse[of "Raw ''garbage''" "''e1''" "demo_runtime 2000 ''b2''"
      unknown_token "''e1''" "demo_runtime 2000 ''b2''"
      "\<lparr>sub = ''u1'', evt = ''e1'', iat = 1, nonce = ''ff''\<rparr>" demo_db demo_db]
  by (simp add: demo_defs unknown_token_def verifyTicketToken_def prisma_ticket_findUnique_def Let_def)

text \<open>
  The claim as first stated, that the two responses cannot be told apart, fails on the
  example store: both are hard rejections and they are different responses.
\<close>

theorem reject_responses_differ:
  "hard_reject (response (validate (demo_runtime 2000 ''b2'') (Raw ''garbage'') ''e1'' demo_db))
   \<and> hard_reject (response (validate (demo_runtime 2000 ''b2'') unknown_token ''e1'' demo_db))
   \<and> response (validate (demo_runtime 2000 ''b2'') (Raw ''garbage'') ''e1'' demo_db)
       \<noteq> response (validate (demo_runtime 2000 ''b2'') unknown_token ''e1'' demo_db)"
  by (simp add: validate_defs demo_defs unknown_token_def hard_reject_def Let_def)

subsection \<open>Registration for a paid event\<close>

text \<open>
  Claim C10. Registering for an event with a positive price, once the event is found,
  the invitation is in order, the user has no ticket for it yet and the store takes
  the row, creates the ticket with status REGISTERED, without nonce and without
  jwtToken, whatever the capacity count says. No validation of any token against any
  event then answers with that ticket: it has no credential the validator accepts.
\<close>

theorem paid_registration:
  assumes ev: "find (\<lambda>e. id_Event e = eid) (events db) = Some ev"
    and invite: "\<not> (isPrivate ev \<and> invite_differs (inviteToken ev) invite)"
    and nodup: "find (\<lambda>t. userId t = uid \<and> eventId t = eid) (tickets db) = None"
    and usr: "find (\<lambda>u. id_User u = uid) (users db) \<noteq> None"
    and fresh: "\<not> list_ex (\<lambda>t. id_Ticket t = newId rt) (tickets db)"
    and paid: "price ev > 0"
  shows "register rt uid eid invite db =
           (PaymentRequired
              \<lparr>id_Ticket = newId rt, jwtToken = None, status = REGISTERED, nonce = None,
               checkInTime = None, userId = uid, eventId = eid,
               createdAt = storeNow rt, updatedAt = storeNow rt\<rparr>
              ''demo_client_secret'' (price ev),
            db\<lparr>tickets := tickets db @
              [\<lparr>id_Ticket = newId rt, jwtToken = None, status = REGISTERED, nonce = None,
                checkInTime = None, userId = uid, eventId = eid,
                createdAt = storeNow rt, updatedAt = storeNow rt\<rparr>]\<rparr>)
       \<and> (\<forall>rt' token' eid'.
             map_option id_Ticket
               (ticket (json (response (validate rt' token' eid' (snd (register rt uid eid invite db))))))
             \<noteq> Some (newId rt))"
proof -
  let ?t = "\<lparr>id_Ticket = newId rt, jwtToken = None, status = REGISTERED, nonce = None,
               checkInTime = None, userId = uid, eventId = eid,
               createdAt = storeNow rt, updatedAt = storeNow rt\<rparr>"
  from nodup have nd: "\<not> list_ex (\<lambda>t. userId t = uid \<and> eventId t = eid) (tickets db)"
    by (auto simp: find_None_iff list_ex_iff)
  have r: "register rt uid eid invite db =
      (PaymentRequired ?t ''demo_client_secret'' (price ev), db\<lparr>tickets := tickets db @ [?t]\<rparr>)"
    using ev invite nodup usr fresh paid nd
    by (auto simp: register_def prisma_ticket_create_def Let_def)
  have "map_option id_Ticket
          (ticket (json (response (validate rt' token' eid' (db\<lparr>tickets := tickets db @ [?t]\<rparr>)))))
        \<noteq> Some (newId rt)" for rt' token' eid'
  proof
    assume "map_option id_Ticket
          (ticket (json (response (validate rt' token' eid' (db\<lparr>tickets := tickets db @ [?t]\<rparr>)))))
        = Some (newId rt)"
    then obtain u where
      "ticket (json (response (validate rt' token' eid' (db\<lparr>tickets := tickets db @ [?t]\<rparr>)))) = Some u"
      "id_Ticket u = newId rt" by auto
    from validate_ticket_from_store[OF this(1)] this(2) fresh show False
      by (auto simp: list_ex_iff)
  qed
  with r show ?thesis by simp
qed

theorem paid_registration_witness:
  "int (ticket_count demo_db ''e2'') \<ge> 1
   \<and> fst (register (demo_runtime 1500 ''d4'') ''u2'' ''e2'' Absent demo_db)
       = PaymentRequired
           \<lparr>id_Ticket = ''t2'', jwtToken = None, status = REGISTERED, nonce = None,
            checkInTime = None, userId = ''u2'', eventId = ''e2'',
            createdAt = 1500, updatedAt = 1500\<rparr> ''demo_client_secret'' 25"
  using paid_registration[of "''e2''" demo_db
      "\<lparr>id_Event = ''e2'', title = ''Tech Conference'', dateTime = 6000, price = 25,
        capacity = 1, isPrivate = False, inviteToken = None\<rparr>"
      Absent "''u2''" "demo_runtime 1500 ''d4''"]
  by (simp add: demo_db_def demo_runtime_def ticket_count_def)

text \<open>
  The free branch is where the capacity decides the status and the credential is
  issued.
\<close>

lemma free_registration:
  assumes ev: "find (\<lambda>e. id_Event e = eid) (events db) = Some ev"
    and invite: "\<not> (isPrivate ev \<and> invite_differs (inviteToken ev) invite)"
    and nodup: "find (\<lambda>t. userId t = uid \<and> eventId t = eid) (tickets db) = None"
    and usr: "find (\<lambda>u. id_User u = uid) (users db) = Some u"
    and fresh: "\<not> list_ex (\<lambda>t. id_Ticket t = newId rt) (tickets db)"
      "\<not> list_ex (\<lambda>t. Ticket.nonce t = Some (randomHex rt)) (tickets db)"
    and free: "\<not> price ev > 0"
  shows "fst (register rt uid eid invite db) =
           Created
              \<lparr>id_Ticket = newId rt, jwtToken = Some (fst (generateTicketToken rt uid eid)),
               status = (if int (ticket_count db eid) \<ge> capacity ev then WAITLISTED else REGISTERED),
               nonce = Some (snd (generateTicketToken rt uid eid)),
               checkInTime = None, userId = uid, eventId = eid,
               createdAt = storeNow rt, updatedAt = storeNow rt\<rparr> ev u"
proof -
  from nodup have nd: "\<not> list_ex (\<lambda>t. userId t = uid \<and> eventId t = eid) (tickets db)"
    by (auto simp: find_None_iff list_ex_iff)
  show ?thesis
    using ev invite nodup usr fresh free nd
    by (auto simp: register_def prisma_ticket_create_def Let_def generateTicketToken_def
        generateNonce_def)
qed

subsection \<open>The write of step 6 under interleaving\<close>

text \<open>
  Claim C1 asks that the final write succeed only while the ticket is still
  REGISTERED. The update selects the row by identifier alone. On the example store a
  second request reads the ticket as REGISTERED, a first request then completes its
  check-in, and the write of the second request, made on a ticket that is CHECKED_IN
  by then, succeeds all the same: it is answered as accepted and it overwrites the
  check-in time.
\<close>

theorem second_write_succeeds:
  "(case fst (validate_lookup (demo_runtime 3000 ''c3'') demo_token ''e1'' demo_db) of
      Respond r \<Rightarrow> False
    | CheckIn d \<Rightarrow>
        accepted (response (validate (demo_runtime 2000 ''b2'') demo_token ''e1'' demo_db))
        \<and> map status (tickets (store (validate (demo_runtime 2000 ''b2'') demo_token ''e1'' demo_db)))
             = [CHECKED_IN, REGISTERED]
        \<and> accepted (fst (validate_commit (demo_runtime 3000 ''c3'') d
             (store (validate (demo_runtime 2000 ''b2'') demo_token ''e1'' demo_db))))
        \<and> map checkInTime (tickets (fst (snd (validate_commit (demo_runtime 3000 ''c3'') d
             (store (validate (demo_runtime 2000 ''b2'') demo_token ''e1'' demo_db))))))
             = [Some 3000, None])"
  by (simp add: validate_defs demo_defs accepted_def Let_def)

subsection \<open>Presenting a credential again\<close>

text \<open>
  Claim C2 asks that a credential presented again after its acceptance be answered as
  a duplicate. The lookup is keyed by the nonce, and the acceptance rotated it: on the
  example store the second presentation is a hard rejection, ``Nonce not found in
  database'', and not a duplicate.
\<close>

theorem replay_is_hard_reject:
  "accepted (response (validate (demo_runtime 2000 ''b2'') demo_token ''e1'' demo_db))
   \<and> hard_reject (response (validate (demo_runtime 3000 ''c3'') demo_token ''e1''
        (store (validate (demo_runtime 2000 ''b2'') demo_token ''e1'' demo_db))))
   \<and> \<not> duplicate (response (validate (demo_runtime 3000 ''c3'') demo_token ''e1''
        (store (validate (demo_runtime 2000 ''b2'') demo_token ''e1'' demo_db))))
   \<and> reason (json (response (validate (demo_runtime 3000 ''c3'') demo_token ''e1''
        (store (validate (demo_runtime 2000 ''b2'') demo_token ''e1'' demo_db)))))
       = ''Nonce not found in database''"
  by (simp add: validate_defs demo_defs accepted_def hard_reject_def duplicate_def Let_def)

text \<open>
  This is so on every store that satisfies the schema, whenever the rotated nonce
  differs from the one in the credential.
\<close>

lemma replay_not_found:
  assumes wf: "wf_db db"
    and acc: "accepted (response (validate rt token eid db))"
    and ver: "verifyTicketToken (jwtService rt) token = Some p"
    and rot: "rotateNonce rt \<noteq> TicketPayload.nonce p"
    and svc: "jwtService rt' = jwtService rt"
  shows "response (validate rt' token eid (store (validate rt token eid db)))
           = red_response 200 ''Ticket not found or counterfeit'' ''Nonce not found in database''"
proof -
  from acc obtain d ops where l: "validate_lookup rt token eid db = (CheckIn d, ops)"
    and v: "valid (json (fst (validate_commit rt d db)))" by (rule accepted_validate_D)
  let ?f = "\<lambda>x. if id_Ticket x = id_Ticket d
             then write_row rt CHECKED_IN (dateNow rt) (randomHex rt) x else x"
  from v obtain t0 u where t0: "find (\<lambda>x. id_Ticket x = id_Ticket d) (tickets db) = Some t0"
    and u: "include_details (db\<lparr>tickets := map ?f (tickets db)\<rparr>)
        (write_row rt CHECKED_IN (dateNow rt) (randomHex rt) t0) = Inr u"
      "ticket (json (fst (validate_commit rt d db))) = Some u"
    and st: "fst (snd (validate_commit rt d db)) = db\<lparr>tickets := map ?f (tickets db)\<rparr>"
    by (rule commit_accepted_D)
  from validate_CheckIn[OF l] st
  have store: "store (validate rt token eid db) = db\<lparr>tickets := map ?f (tickets db)\<rparr>" by simp
  from l obtain p' old where
    ver': "verifyTicketToken (jwtService rt) token = Some p'" "evt p' = eid" and
    old: "find (\<lambda>x. Ticket.nonce x = Some (TicketPayload.nonce p')) (tickets db) = Some old"
      "include_details db old = Inr d" "status old = REGISTERED" and
    ops: "ops = [FindUniqueByNonce (TicketPayload.nonce p')]"
    by (rule lookup_CheckIn_D)
  from ver ver' have pp: "p' = p" by simp
  from old(2) have idd: "id_Ticket d = id_Ticket old" by (simp add: include_details_fields)
  from wf have dist: "distinct (List.map_filter Ticket.nonce (tickets db))" by (simp add: wf_db_def)
  have none: "find (\<lambda>x. Ticket.nonce x = Some (TicketPayload.nonce p)) (map ?f (tickets db)) = None"
  proof -
    have "Ticket.nonce (?f x) \<noteq> Some (TicketPayload.nonce p)" if x: "x \<in> set (tickets db)" for x
    proof (cases "id_Ticket x = id_Ticket d")
      case True
      with rot show ?thesis by (simp add: rotateNonce_def generateNonce_def)
    next
      case False
      show ?thesis
      proof
        assume "Ticket.nonce (?f x) = Some (TicketPayload.nonce p)"
        with False have "Ticket.nonce x = Some (TicketPayload.nonce p)" by simp
        from find_by_nonce[OF dist x this] old(1) pp have "x = old" by simp
        with False idd show False by simp
      qed
    qed
    then have "\<forall>y \<in> set (map ?f (tickets db)).
        Ticket.nonce y \<noteq> Some (TicketPayload.nonce p)"
      unfolding set_map by blast
    then show ?thesis unfolding find_None_iff by blast
  qed
  from lookup_CheckIn_nonempty[OF l] have ne: "token \<noteq> Raw []" "eid \<noteq> []" by simp_all
  have "validate_lookup rt' token eid (db\<lparr>tickets := map ?f (tickets db)\<rparr>)
      = (Respond (red_response 200 ''Ticket not found or counterfeit'' ''Nonce not found in database''),
         [FindUniqueByNonce (TicketPayload.nonce p)])"
    using ne ver svc ver'(2) pp none
    by (simp add: validate_lookup_def prisma_ticket_findUnique_def)
  with store show ?thesis by (simp add: validate_Respond)
qed

subsection \<open>Two concurrent validations of one credential\<close>

text \<open>
  Claim C3 asks that of N concurrent validations of one credential exactly one be
  accepted and the others be answered as duplicates. For two requests on the example
  store: when both read before either writes, both are accepted; when they run one
  after the other, the second is a hard rejection. No schedule yields a duplicate.
\<close>

theorem two_concurrent_validations:
  "map verdict (fst (run [0, 1, 0, 1]
      [Received (demo_runtime 2000 ''b2'') demo_token ''e1'',
       Received (demo_runtime 3000 ''c3'') demo_token ''e1''] demo_db)) = [Accept, Accept]
   \<and> map verdict (fst (run [0, 0, 1, 1]
      [Received (demo_runtime 2000 ''b2'') demo_token ''e1'',
       Received (demo_runtime 3000 ''c3'') demo_token ''e1''] demo_db)) = [Accept, HardReject]
   \<and> map verdict (fst (run [0, 1, 1, 0]
      [Received (demo_runtime 2000 ''b2'') demo_token ''e1'',
       Received (demo_runtime 3000 ''c3'') demo_token ''e1''] demo_db)) = [Accept, Accept]"
  by (simp add: validate_defs demo_defs accepted_def hard_reject_def duplicate_def Let_def)

end
